theory Spec2Isabelle
  imports Complex_Main
begin

section \<open>The location server: data model\<close>

text \<open>
  The module keeps one process-wide cache dictionary, talks to the platform's location
  manager through a delegate object, and reads the wall clock with \<^verbatim>\<open>time.time()\<close>.
  Times are Python floats; they are modelled as reals, so the comparisons of the source are
  the comparisons of the model. Everything the functions touch besides their arguments is
  gathered in one \<open>world\<close> record that every operation takes and returns.
\<close>

subsection \<open>Results returned to the caller\<close>

text \<open>The eight entries of the dictionary built by \<^verbatim>\<open>_format_location_data\<close>.\<close>

record location_data =
  latitude :: real
  longitude :: real
  accuracy :: real
  altitude :: real
  altitude_accuracy :: real
  course :: real
  speed :: real
  timestamp :: real

text \<open>
  Every dictionary that \<^verbatim>\<open>get_current_location\<close> returns is either the eight-entry
  location dictionary or the one-entry dictionary \<^verbatim>\<open>{"error": description}\<close>.
\<close>

datatype result = LocationResult location_data | ErrorResult string

text \<open>
  A \<^verbatim>\<open>CLLocation\<close> object handed over by the platform. The second constructor is an
  object whose property access raises an exception \<open>e\<close>; its argument is \<^verbatim>\<open>str(e)\<close>.
\<close>

datatype cl_location = CLLocation location_data | CLLocationRaising string

text \<open>An \<^verbatim>\<open>NSError\<close> of CoreLocation; the source only reads \<^verbatim>\<open>error.code()\<close>.\<close>

datatype cl_error = CLError int

fun code :: "cl_error \<Rightarrow> int" where
  "code (CLError c) = c"

text \<open>
  The two error codes and the authorisation states are constants of CoreLocation; the
  codes have the values the platform headers give them.
\<close>

definition kCLErrorLocationUnknown :: int where
  "kCLErrorLocationUnknown = 0"

definition kCLErrorDenied :: int where
  "kCLErrorDenied = 1"

datatype cl_authorization_status =
    kCLAuthorizationStatusNotDetermined
  | kCLAuthorizationStatusRestricted
  | kCLAuthorizationStatusDenied
  | kCLAuthorizationStatusAuthorizedAlways
  | kCLAuthorizationStatusAuthorizedWhenInUse

datatype cl_accuracy =
    kCLLocationAccuracyBest
  | kCLLocationAccuracyBestForNavigation
  | kCLLocationAccuracyNearestTenMeters
  | kCLLocationAccuracyHundredMeters
  | kCLLocationAccuracyKilometer
  | kCLLocationAccuracyThreeKilometers

subsection \<open>The cache\<close>

text \<open>
  \<^verbatim>\<open>_location_cache = {"data": None, "timestamp": 0, "cache_duration": 30}\<close>
\<close>

record cache =
  data :: "result option"
  timestamp_c :: real
  cache_duration :: int

definition initial_cache :: cache where
  "initial_cache = \<lparr>data = None, timestamp_c = 0, cache_duration = 30\<rparr>"

subsection \<open>The delegate and the sensor\<close>

record location_delegate =
  location :: "cl_location option"
  location_error :: "cl_error option"
  is_updated :: bool

text \<open>\<^verbatim>\<open>LocationDelegate.init\<close>\<close>

definition init :: location_delegate where
  "init = \<lparr>location = None, location_error = None, is_updated = False\<rparr>"

text \<open>
  The two notifications of the platform. The list of locations that CoreLocation passes
  to \<^verbatim>\<open>didUpdateLocations\<close> always holds at least one object, so the event carries its
  first element and the rest.
\<close>

datatype sensor_event =
    DidUpdateLocations cl_location "cl_location list"
  | DidFailWithError cl_error

fun locationManager_didUpdateLocations :: "cl_location list \<Rightarrow> location_delegate \<Rightarrow> location_delegate" where
  "locationManager_didUpdateLocations locations d =
     d\<lparr>location := Some (last locations), is_updated := True\<rparr>"

fun locationManager_didFailWithError :: "cl_error \<Rightarrow> location_delegate \<Rightarrow> location_delegate" where
  "locationManager_didFailWithError error d =
     d\<lparr>location_error := Some error, is_updated := True\<rparr>"

fun deliver :: "sensor_event \<Rightarrow> location_delegate \<Rightarrow> location_delegate" where
  "deliver (DidUpdateLocations l ls) d = locationManager_didUpdateLocations (l # ls) d"
| "deliver (DidFailWithError e) d = locationManager_didFailWithError e d"

text \<open>The calls the module makes on the platform, recorded in the order they happen.\<close>

datatype platform_call =
    SetDelegate
  | SetDistanceFilterNone
  | SetDesiredAccuracy cl_accuracy
  | RequestWhenInUseAuthorization
  | StartUpdatingLocation
  | RunUntilDate real
  | StopUpdatingLocation

subsection \<open>The world\<close>

text \<open>
  \<^item> \<open>location_cache\<close>: the global \<^verbatim>\<open>_location_cache\<close>;
  \<^item> \<open>clock\<close>: what \<^verbatim>\<open>time.time()\<close> returns now;
  \<^item> \<open>authorization_status\<close>: what \<^verbatim>\<open>CLLocationManager.authorizationStatus()\<close> returns;
  \<^item> \<open>pending\<close>: the notifications the platform is going to deliver, each with the time
    at which it becomes due;
  \<^item> \<open>calls\<close>: the platform calls made so far;
  \<^item> \<open>threads\<close>: the background threads started so far, each with the
    \<^verbatim>\<open>callback_route\<close> and \<^verbatim>\<open>accuracy\<close> it closes over.
\<close>

record world =
  location_cache :: cache
  clock :: real
  authorization_status :: cl_authorization_status
  pending :: "(real \<times> sensor_event) list"
  calls :: "platform_call list"
  threads :: "(string \<times> string) list"

definition call :: "platform_call \<Rightarrow> world \<Rightarrow> world" where
  "call c w = w\<lparr>calls := calls w @ [c]\<rparr>"

text \<open>
  \<^verbatim>\<open>NSRunLoop.currentRunLoop().runUntilDate_(NSDate.dateWithTimeIntervalSinceNow_(interval))\<close>:
  the run loop runs for \<open>interval\<close> seconds; every notification that is due by then is
  dispatched to the delegate, in order. This is the only place where time passes.
\<close>

definition runUntilDate :: "real \<Rightarrow> location_delegate \<Rightarrow> world \<Rightarrow> location_delegate \<times> world" where
  "runUntilDate interval d w =
     (let t = clock w + interval;
          due = filter (\<lambda>p. fst p \<le> t) (pending w);
          later = filter (\<lambda>p. \<not> fst p \<le> t) (pending w)
      in (fold (\<lambda>p. deliver (snd p)) due d,
          (call (RunUntilDate interval) w)\<lparr>clock := t, pending := later\<rparr>))"

section \<open>The functions of the module\<close>

subsection \<open>Formatting\<close>

fun format_location_data :: "cl_location option \<Rightarrow> result option" where
  "format_location_data None = None"
| "format_location_data (Some (CLLocation l)) = Some (LocationResult l)"
| "format_location_data (Some (CLLocationRaising e)) =
     Some (ErrorResult (''Error formatting location data: '' @ e))"

text \<open>Python's \<^verbatim>\<open>str\<close> of an integer, for the f-string of \<^verbatim>\<open>_get_error_info\<close>.\<close>

fun digits :: "nat \<Rightarrow> string" where
  "digits n = (if n < 10 then [char_of (48 + n)] else digits (n div 10) @ [char_of (48 + n mod 10)])"

definition str_int :: "int \<Rightarrow> string" where
  "str_int i = (if i < 0 then CHR ''-'' # digits (nat (- i)) else digits (nat i))"

record error_info =
  code_e :: int
  description :: string

definition get_error_info :: "cl_error option \<Rightarrow> error_info" where
  "get_error_info error =
     (case error of
        None \<Rightarrow> \<lparr>code_e = 0, description = ''Unknown error''\<rparr>
      | Some err \<Rightarrow>
          (let error_code = code err;
               error_desc =
                 (if error_code = kCLErrorLocationUnknown then ''Unable to determine location''
                  else if error_code = kCLErrorDenied then
                    ''Location services access denied. Please enable in System Preferences.''
                  else ''Location services error '' @ str_int error_code)
           in \<lparr>code_e = error_code, description = error_desc\<rparr>))"

subsection \<open>The accuracy table\<close>

text \<open>
  \<^verbatim>\<open>accuracy.lower()\<close> is Python's Unicode-aware \<^verbatim>\<open>str.lower\<close>. It belongs to the
  language, not to the module, so it is a parameter \<open>lower\<close> of the model, and every
  statement below holds for whatever function stands for it.

  \<open>lower_ascii\<close> is what \<^verbatim>\<open>str.lower\<close> does on strings of ASCII characters: it maps
  \<open>A\<close>..\<open>Z\<close> to \<open>a\<close>..\<open>z\<close>. It is used only to run the model on examples whose
  \<^verbatim>\<open>accuracy\<close> argument is ASCII.
\<close>

definition lower_char :: "char \<Rightarrow> char" where
  "lower_char c =
     (if 65 \<le> (of_char c :: nat) \<and> (of_char c :: nat) \<le> 90 then char_of (of_char c + 32 :: nat) else c)"

definition lower_ascii :: "string \<Rightarrow> string" where
  "lower_ascii s = map lower_char s"

definition accuracy_map :: "string \<rightharpoonup> cl_accuracy" where
  "accuracy_map = map_of
     [(''best'', kCLLocationAccuracyBest),
      (''navigation'', kCLLocationAccuracyBestForNavigation),
      (''ten_meters'', kCLLocationAccuracyNearestTenMeters),
      (''hundred_meters'', kCLLocationAccuracyHundredMeters),
      (''kilometer'', kCLLocationAccuracyKilometer),
      (''three_kilometers'', kCLLocationAccuracyThreeKilometers)]"

definition desired_accuracy :: "(string \<Rightarrow> string) \<Rightarrow> string \<Rightarrow> cl_accuracy" where
  "desired_accuracy lower acc =
     (case accuracy_map (lower acc) of None \<Rightarrow> kCLLocationAccuracyBest | Some a \<Rightarrow> a)"

subsection \<open>\<^verbatim>\<open>get_current_location\<close>\<close>

text \<open>
  The condition of the cache short-circuit (without \<^verbatim>\<open>use_cache\<close>). A stored
  dictionary is never empty, so \<^verbatim>\<open>_location_cache["data"]\<close> is true exactly when it is
  not \<^verbatim>\<open>None\<close>.
\<close>

definition cache_fresh :: "cache \<Rightarrow> real \<Rightarrow> bool" where
  "cache_fresh c current_time =
     (data c \<noteq> None \<and> current_time - timestamp_c c < real_of_int (cache_duration c))"

text \<open>The two assignments that update the cache.\<close>

definition update_cache :: "result \<Rightarrow> real \<Rightarrow> world \<Rightarrow> world" where
  "update_cache r t w = w\<lparr>location_cache := (location_cache w)\<lparr>data := Some r, timestamp_c := t\<rparr>\<rparr>"

text \<open>
  The wait loop. With a polling interval that is not positive and a sensor that stays
  silent it would never end, so the loop is a partial function: \<open>None\<close> is the loop
  that does not return.
\<close>

partial_function (option) wait_loop ::
  "real \<Rightarrow> int \<Rightarrow> real \<Rightarrow> location_delegate \<Rightarrow> world \<Rightarrow> (location_delegate \<times> world) option" where
  "wait_loop start_time timeout polling_interval d w =
     (if \<not> is_updated d \<and> clock w - start_time < real_of_int timeout
      then wait_loop start_time timeout polling_interval
             (fst (runUntilDate polling_interval d w)) (snd (runUntilDate polling_interval d w))
      else Some (d, w))"

declare wait_loop.simps [code]

definition get_current_location ::
  "(string \<Rightarrow> string) \<Rightarrow> bool \<Rightarrow> int \<Rightarrow> string \<Rightarrow> real \<Rightarrow> world \<Rightarrow> (result \<times> world) option" where
  "get_current_location lower use_cache timeout0 acc polling_interval0 w =
     (let timeout = min (max 1 timeout0) 30;
          polling_interval = min (max 0.1 polling_interval0) 1.0;
          current_time = clock w
      in if use_cache \<and> cache_fresh (location_cache w) current_time
         then Some (the (data (location_cache w)), w)
         else
           let w1 = call SetDelegate w;
               w2 = call SetDistanceFilterNone w1;
               w3 = call (SetDesiredAccuracy (desired_accuracy lower acc)) w2;
               w4 = call RequestWhenInUseAuthorization w3;
               auth_status = authorization_status w4
           in if auth_status = kCLAuthorizationStatusDenied
              then Some (ErrorResult (description (get_error_info None)), w4)
              else
                let w5 = call StartUpdatingLocation w4;
                    start_time = clock w5
                in case wait_loop start_time timeout polling_interval init w5 of
                     None \<Rightarrow> None
                   | Some (delegate, w6) \<Rightarrow>
                       let w7 = call StopUpdatingLocation w6
                       in if location_error delegate \<noteq> None \<or> location delegate = None
                          then
                            let result = ErrorResult (description (get_error_info (location_error delegate)))
                            in Some (result, update_cache result current_time w7)
                          else
                            let result = the (format_location_data (location delegate))
                            in Some (result, update_cache result current_time w7))"

subsection \<open>The cache operations\<close>

definition clear_location_cache :: "world \<Rightarrow> string \<times> world" where
  "clear_location_cache w =
     (''cache_cleared'', w\<lparr>location_cache := (location_cache w)\<lparr>data := None, timestamp_c := 0\<rparr>\<rparr>)"

definition set_cache_duration :: "int \<Rightarrow> world \<Rightarrow> int \<times> world" where
  "set_cache_duration seconds w =
     (let w' = w\<lparr>location_cache := (location_cache w)\<lparr>cache_duration := max 5 (min seconds 300)\<rparr>\<rparr>
      in (cache_duration (location_cache w'), w'))"

record cache_status =
  has_cached_data :: bool
  cache_duration_s :: int
  seconds_since_update :: real
  seconds_until_expiration :: real
  is_expired :: bool

definition get_cache_status :: "world \<Rightarrow> cache_status" where
  "get_cache_status w =
     (let current_time = clock w;
          time_since_update = current_time - timestamp_c (location_cache w);
          has_data = (data (location_cache w) \<noteq> None)
      in \<lparr>has_cached_data = has_data,
          cache_duration_s = cache_duration (location_cache w),
          seconds_since_update = (if has_data then time_since_update else 0),
          seconds_until_expiration =
            (if has_data then max 0 (real_of_int (cache_duration (location_cache w)) - time_since_update)
             else 0),
          is_expired =
            (if has_data then time_since_update > real_of_int (cache_duration (location_cache w))
             else True)\<rparr>)"

subsection \<open>\<^verbatim>\<open>get_location_async\<close>\<close>

text \<open>
  The two attributes of the result of \<^verbatim>\<open>urllib.parse.urlparse\<close> that the source reads.
  The parser belongs to the standard library; it is a parameter of the model, and
  \<open>None\<close> is the parser raising an exception.
\<close>

record parse_result =
  scheme :: string
  netloc :: string

datatype async_response =
    AsyncError string
  | LocationRequestStarted string string

definition get_location_async ::
  "(string \<Rightarrow> parse_result option) \<Rightarrow> string option \<Rightarrow> string \<Rightarrow> world \<Rightarrow> async_response \<times> world" where
  "get_location_async urlparse callback_route acc w =
     (case callback_route of
        None \<Rightarrow> (AsyncError ''No callback_route specified'', w)
      | Some route \<Rightarrow>
          if route = [] then (AsyncError ''No callback_route specified'', w)
          else
            (case urlparse route of
               None \<Rightarrow> (AsyncError ''Invalid callback_route format'', w)
             | Some parsed \<Rightarrow>
                 if \<not> (scheme parsed \<noteq> [] \<and> netloc parsed \<noteq> [])
                 then (AsyncError ''Invalid callback_route format. Must be a valid URL.'', w)
                 else (LocationRequestStarted route acc, w\<lparr>threads := threads w @ [(route, acc)]\<rparr>)))"

subsection \<open>The host of a network location\<close>

text \<open>
  The host that a network location names, the way \<^verbatim>\<open>urllib.parse\<close> finds it for the
  \<^verbatim>\<open>hostname\<close> attribute of a parse result (before lower-casing): drop the user
  information up to the last \<open>@\<close>, then take what stands between the brackets of an
  IPv6 literal or else what precedes the first colon. The module never asks for it; it
  is here to say what a route without a host is.
\<close>

definition hostname :: "string \<Rightarrow> string" where
  "hostname nl =
     (let hostinfo = rev (takeWhile (\<lambda>c. c \<noteq> CHR ''@'') (rev nl))
      in if CHR ''['' \<in> set hostinfo
         then takeWhile (\<lambda>c. c \<noteq> CHR '']'') (drop 1 (dropWhile (\<lambda>c. c \<noteq> CHR ''['') hostinfo))
         else takeWhile (\<lambda>c. c \<noteq> CHR '':'') hostinfo)"

section \<open>Worlds used as examples\<close>

text \<open>
  A world at time 100 with the cache as the module creates it, location services
  authorised and a sensor that never notifies; the same world with authorisation denied;
  and a position fix.
\<close>

definition quiet_world :: world where
  "quiet_world =
     \<lparr>location_cache = initial_cache, clock = 100,
      authorization_status = kCLAuthorizationStatusAuthorizedAlways,
      pending = [], calls = [], threads = []\<rparr>"

definition denied_world :: world where
  "denied_world = quiet_world\<lparr>authorization_status := kCLAuthorizationStatusDenied\<rparr>"

definition example_fix :: location_data where
  "example_fix =
     \<lparr>latitude = 48, longitude = 2, accuracy = 5, altitude = 35, altitude_accuracy = 3,
      course = 0, speed = 0, timestamp = 99\<rparr>"

section \<open>Properties of the wait loop\<close>

text \<open>What one pass of the run loop changes and what it leaves alone.\<close>

lemma runUntilDate_frame:
  "location_cache (snd (runUntilDate p d w)) = location_cache w"
  "authorization_status (snd (runUntilDate p d w)) = authorization_status w"
  "threads (snd (runUntilDate p d w)) = threads w"
  "clock (snd (runUntilDate p d w)) = clock w + p"
  "calls (snd (runUntilDate p d w)) = calls w @ [RunUntilDate p]"
  by (simp_all add: runUntilDate_def call_def Let_def)

lemma runUntilDate_silent:
  assumes "\<forall>e\<in>set (pending w). clock w + p < fst e"
  shows "fst (runUntilDate p d w) = d" and "pending (snd (runUntilDate p d w)) = pending w"
proof -
  have "filter (\<lambda>e. fst e \<le> clock w + p) (pending w) = []"
    using assms by (auto simp add: filter_empty_conv)
  then show "fst (runUntilDate p d w) = d"
    by (simp add: runUntilDate_def Let_def)
  have "filter (\<lambda>e. \<not> fst e \<le> clock w + p) (pending w) = pending w"
    using assms by (auto simp add: filter_id_conv)
  then show "pending (snd (runUntilDate p d w)) = pending w"
    by (simp add: runUntilDate_def Let_def call_def)
qed

text \<open>The two ways through the loop head.\<close>

lemma wait_loop_exit:
  "is_updated d \<or> \<not> clock w - s < real_of_int t \<Longrightarrow> wait_loop s t p d w = Some (d, w)"
  by (subst wait_loop.simps) auto

lemma wait_loop_step:
  "\<not> is_updated d \<Longrightarrow> clock w - s < real_of_int t \<Longrightarrow>
   wait_loop s t p d w = wait_loop s t p (fst (runUntilDate p d w)) (snd (runUntilDate p d w))"
  by (subst wait_loop.simps) auto

text \<open>
  Total correctness of the loop for a positive polling interval: the time left until the
  timeout, counted in polling intervals, drops by one in every pass. The rule proves that
  the loop returns and that the returned pair satisfies \<open>P\<close> at once.
\<close>

lemma wait_loop_total:
  assumes pos: "0 < p"
    and exit: "\<And>d w. is_updated d \<or> \<not> clock w - s < real_of_int t \<Longrightarrow> P d w (d, w)"
    and step: "\<And>d w r. \<not> is_updated d \<Longrightarrow> clock w - s < real_of_int t \<Longrightarrow>
            P (fst (runUntilDate p d w)) (snd (runUntilDate p d w)) r \<Longrightarrow> P d w r"
  shows "\<exists>r. wait_loop s t p d w = Some r \<and> P d w r"
proof -
  have "nat \<lceil>(s + real_of_int t - clock w) / p\<rceil> \<le> n \<Longrightarrow> \<exists>r. wait_loop s t p d w = Some r \<and> P d w r"
    for n
  proof (induction n arbitrary: d w)
    case 0
    then have "(s + real_of_int t - clock w) / p \<le> 0"
      by (simp add: ceiling_le_iff)
    with pos have "\<not> clock w - s < real_of_int t"
      by (simp add: divide_le_0_iff)
    then show ?case by (simp add: wait_loop_exit exit)
  next
    case (Suc n)
    show ?case
    proof (cases "\<not> is_updated d \<and> clock w - s < real_of_int t")
      case False
      then show ?thesis by (auto simp add: wait_loop_exit exit)
    next
      case True
      let ?w = "snd (runUntilDate p d w)"
      have "(s + real_of_int t - clock ?w) / p = (s + real_of_int t - clock w) / p - 1"
        using pos by (simp add: runUntilDate_frame field_simps)
      then have "nat \<lceil>(s + real_of_int t - clock ?w) / p\<rceil> \<le> n"
        using Suc.prems by simp linarith
      from Suc.IH[OF this] obtain r where
        "wait_loop s t p (fst (runUntilDate p d w)) ?w = Some r"
        "P (fst (runUntilDate p d w)) ?w r" by blast
      with True show ?thesis by (auto simp add: wait_loop_step intro: step)
    qed
  qed
  then show ?thesis by blast
qed

lemma wait_loop_terminates: "0 < p \<Longrightarrow> \<exists>r. wait_loop s t p d w = Some r"
  using wait_loop_total[of p s t "\<lambda>_ _ _. True" d w] by blast

lemma wait_loop_frame:
  assumes "0 < p" and "wait_loop s t p d w = Some (d', w')"
  shows "location_cache w' = location_cache w"
    and "authorization_status w' = authorization_status w"
    and "threads w' = threads w"
    and "clock w \<le> clock w'"
    and "\<exists>k. calls w' = calls w @ replicate k (RunUntilDate p)"
    and "is_updated d' \<or> \<not> clock w' - s < real_of_int t"
proof -
  let ?P = "\<lambda>d w r. location_cache (snd r) = location_cache w \<and>
     authorization_status (snd r) = authorization_status w \<and>
     threads (snd r) = threads w \<and> clock w \<le> clock (snd r) \<and>
     (\<exists>k. calls (snd r) = calls w @ replicate k (RunUntilDate p)) \<and>
     (is_updated (fst r) \<or> \<not> clock (snd r) - s < real_of_int t)"
  have "\<exists>r. wait_loop s t p d w = Some r \<and> ?P d w r"
  proof (rule wait_loop_total[OF assms(1)])
    fix d w assume "is_updated d \<or> \<not> clock w - s < real_of_int t"
    then show "?P d w (d, w)" by (auto intro: exI[of _ 0])
  next
    fix d w r
    assume h: "?P (fst (runUntilDate p d w)) (snd (runUntilDate p d w)) r"
    then obtain k where "calls (snd r) = calls w @ replicate (Suc k) (RunUntilDate p)"
      by (auto simp add: runUntilDate_frame)
    then have "\<exists>k. calls (snd r) = calls w @ replicate k (RunUntilDate p)" by blast
    with h show "?P d w r" using assms(1) by (simp add: runUntilDate_frame)
  qed
  with assms(2) have "?P d w (d', w')" by simp
  then show "location_cache w' = location_cache w"
    and "authorization_status w' = authorization_status w"
    and "threads w' = threads w"
    and "clock w \<le> clock w'"
    and "\<exists>k. calls w' = calls w @ replicate k (RunUntilDate p)"
    and "is_updated d' \<or> \<not> clock w' - s < real_of_int t" by simp_all
qed

text \<open>
  A sensor whose notifications all fall due after the last pass of the loop can end:
  the delegate is never called.
\<close>

lemma wait_loop_silent:
  assumes "0 < p" and "wait_loop s t p d w = Some (d', w')"
    and "\<forall>e\<in>set (pending w). s + real_of_int t + p \<le> fst e"
  shows "d' = d" and "pending w' = pending w"
proof -
  let ?P = "\<lambda>d w r. (\<forall>e\<in>set (pending w). s + real_of_int t + p \<le> fst e) \<longrightarrow>
     fst r = d \<and> pending (snd r) = pending w"
  have "\<exists>r. wait_loop s t p d w = Some r \<and> ?P d w r"
  proof (rule wait_loop_total[OF assms(1)])
    fix d w assume "is_updated d \<or> \<not> clock w - s < real_of_int t"
    then show "?P d w (d, w)" by simp
  next
    fix d w r
    assume c: "clock w - s < real_of_int t"
      and h: "?P (fst (runUntilDate p d w)) (snd (runUntilDate p d w)) r"
    show "?P d w r"
    proof
      assume a: "\<forall>e\<in>set (pending w). s + real_of_int t + p \<le> fst e"
      with c have "\<forall>e\<in>set (pending w). clock w + p < fst e" by fastforce
      then have "fst (runUntilDate p d w) = d" "pending (snd (runUntilDate p d w)) = pending w"
        by (rule runUntilDate_silent)+
      with h a show "fst r = d \<and> pending (snd r) = pending w" by simp
    qed
  qed
  with assms(2,3) show "d' = d" and "pending w' = pending w" by auto
qed

text \<open>
  With a silent sensor the loop makes exactly as many passes as polling intervals are
  needed to cover the timeout, and changes nothing but the clock and the call log.
\<close>

lemma runUntilDate_silent_world:
  assumes "\<forall>e\<in>set (pending w). clock w + p < fst e"
  shows "snd (runUntilDate p d w) = w\<lparr>clock := clock w + p, calls := calls w @ [RunUntilDate p]\<rparr>"
proof -
  have "filter (\<lambda>e. \<not> fst e \<le> clock w + p) (pending w) = pending w"
    using assms by (auto simp add: filter_id_conv)
  then show ?thesis
    by (simp add: runUntilDate_def Let_def call_def)
qed

lemma wait_loop_silent_run:
  assumes pos: "0 < p" and quiet: "\<not> is_updated d"
  shows "(\<forall>e\<in>set (pending w). s + real_of_int t + p \<le> fst e) \<Longrightarrow>
     nat \<lceil>(s + real_of_int t - clock w) / p\<rceil> = n \<Longrightarrow>
     wait_loop s t p d w =
       Some (d, w\<lparr>clock := clock w + real n * p, calls := calls w @ replicate n (RunUntilDate p)\<rparr>)"
proof (induction n arbitrary: w)
  case 0
  then have "(s + real_of_int t - clock w) / p \<le> 0"
    by (simp add: ceiling_le_iff)
  with pos have "\<not> clock w - s < real_of_int t"
    by (simp add: divide_le_0_iff)
  then show ?case by (simp add: wait_loop_exit)
next
  case (Suc n)
  have "0 < \<lceil>(s + real_of_int t - clock w) / p\<rceil>"
  proof (rule ccontr)
    assume "\<not> 0 < \<lceil>(s + real_of_int t - clock w) / p\<rceil>"
    then have "nat \<lceil>(s + real_of_int t - clock w) / p\<rceil> = 0" by simp
    with Suc.prems(2) show False by simp
  qed
  then have "0 < (s + real_of_int t - clock w) / p"
    by (simp add: zero_less_ceiling)
  with pos have running: "clock w - s < real_of_int t"
    by (simp add: zero_less_divide_iff)
  with Suc.prems(1) have due: "\<forall>e\<in>set (pending w). clock w + p < fst e" by fastforce
  let ?w = "w\<lparr>clock := clock w + p, calls := calls w @ [RunUntilDate p]\<rparr>"
  have step: "wait_loop s t p d w = wait_loop s t p d ?w"
    using wait_loop_step[OF quiet running, of p]
      runUntilDate_silent(1)[OF due, of d] runUntilDate_silent_world[OF due, of d] by simp
  have "(s + real_of_int t - clock ?w) / p = (s + real_of_int t - clock w) / p - 1"
    using pos by (simp add: field_simps)
  then have m: "nat \<lceil>(s + real_of_int t - clock ?w) / p\<rceil> = n"
    using Suc.prems(2) by simp
  have q: "\<forall>e\<in>set (pending ?w). s + real_of_int t + p \<le> fst e"
    using Suc.prems(1) by simp
  have "wait_loop s t p d ?w =
      Some (d, ?w\<lparr>clock := clock ?w + real n * p, calls := calls ?w @ replicate n (RunUntilDate p)\<rparr>)"
    by (rule Suc.IH[OF q m])
  with step show ?case
    by (simp add: algebra_simps replicate_append_same)
qed

lemma passes_bounds:
  assumes "0 < (p::real)"
  shows "real_of_int t \<le> real (nat \<lceil>real_of_int t / p\<rceil>) * p"
    and "0 \<le> t \<Longrightarrow> real (nat \<lceil>real_of_int t / p\<rceil>) * p < real_of_int t + p"
proof -
  have "real_of_int t / p \<le> real_of_int \<lceil>real_of_int t / p\<rceil>" by linarith
  also have "\<dots> \<le> real (nat \<lceil>real_of_int t / p\<rceil>)" by simp
  finally show "real_of_int t \<le> real (nat \<lceil>real_of_int t / p\<rceil>) * p"
    using assms by (simp add: pos_divide_le_eq)
next
  assume "0 \<le> t"
  with assms have "0 \<le> real_of_int t / p" by simp
  then have "0 \<le> \<lceil>real_of_int t / p\<rceil>"
    using ceiling_mono[of 0 "real_of_int t / p"] by simp
  then have "real (nat \<lceil>real_of_int t / p\<rceil>) = real_of_int \<lceil>real_of_int t / p\<rceil>" by simp
  moreover have "real_of_int \<lceil>real_of_int t / p\<rceil> < real_of_int t / p + 1" by linarith
  ultimately have "real (nat \<lceil>real_of_int t / p\<rceil>) < (real_of_int t + p) / p"
    using assms by (simp add: add_divide_distrib)
  then show "real (nat \<lceil>real_of_int t / p\<rceil>) * p < real_of_int t + p"
    using assms by (simp add: pos_less_divide_eq)
qed

text \<open>
  The loop neither reads nor writes the cache.
\<close>

lemma wait_loop_cache:
  assumes "0 < p"
  shows "\<exists>r. wait_loop s t p d w = Some r \<and>
     wait_loop s t p d (w\<lparr>location_cache := c\<rparr>) = Some (fst r, (snd r)\<lparr>location_cache := c\<rparr>)"
proof (rule wait_loop_total[OF assms])
  fix d :: location_delegate and w :: world
  assume "is_updated d \<or> \<not> clock w - s < real_of_int t"
  then show "wait_loop s t p d (w\<lparr>location_cache := c\<rparr>) =
      Some (fst (d, w), (snd (d, w))\<lparr>location_cache := c\<rparr>)"
    by (simp add: wait_loop_exit)
next
  fix d :: location_delegate and w :: world and r :: "location_delegate \<times> world"
  assume a: "\<not> is_updated d" "clock w - s < real_of_int t"
    and h: "wait_loop s t p (fst (runUntilDate p d w)) ((snd (runUntilDate p d w))\<lparr>location_cache := c\<rparr>) =
      Some (fst r, (snd r)\<lparr>location_cache := c\<rparr>)"
  have "runUntilDate p d (w\<lparr>location_cache := c\<rparr>) =
      (fst (runUntilDate p d w), (snd (runUntilDate p d w))\<lparr>location_cache := c\<rparr>)"
    by (simp add: runUntilDate_def Let_def call_def)
  with a h show "wait_loop s t p d (w\<lparr>location_cache := c\<rparr>) = Some (fst r, (snd r)\<lparr>location_cache := c\<rparr>)"
    using wait_loop_step[of d "w\<lparr>location_cache := c\<rparr>" s t p] by simp
qed

section \<open>The three ways through \<^verbatim>\<open>get_current_location\<close>\<close>

lemma clamp_timeout: "1 \<le> min (max 1 (t::int)) 30" "min (max 1 (t::int)) 30 \<le> 30"
  by simp_all

lemma clamp_polling: "0 < min (max 0.1 (p::real)) 1.0" "0.1 \<le> min (max 0.1 (p::real)) 1.0"
  "min (max 0.1 (p::real)) 1.0 \<le> 1"
  by simp_all

text \<open>The cache short-circuit, the early return on denial, and the acquisition.\<close>

lemma get_current_location_cached:
  "use_cache \<Longrightarrow> cache_fresh (location_cache w) (clock w) \<Longrightarrow>
   get_current_location lower use_cache t acc p w = Some (the (data (location_cache w)), w)"
  by (simp add: get_current_location_def)

lemma get_current_location_denied:
  "\<not> (use_cache \<and> cache_fresh (location_cache w) (clock w)) \<Longrightarrow>
   authorization_status w = kCLAuthorizationStatusDenied \<Longrightarrow>
   get_current_location lower use_cache t acc p w =
     Some (ErrorResult ''Unknown error'',
           w\<lparr>calls := calls w @ [SetDelegate, SetDistanceFilterNone,
                SetDesiredAccuracy (desired_accuracy lower acc), RequestWhenInUseAuthorization]\<rparr>)"
  by (auto simp add: get_current_location_def Let_def call_def get_error_info_def)

lemma get_current_location_acquire:
  assumes "\<not> (use_cache \<and> cache_fresh (location_cache w) (clock w))"
    and "authorization_status w \<noteq> kCLAuthorizationStatusDenied"
  shows "\<exists>d' w6.
     wait_loop (clock w) (min (max 1 t) 30) (min (max 0.1 p) 1.0) init
       (w\<lparr>calls := calls w @ [SetDelegate, SetDistanceFilterNone,
            SetDesiredAccuracy (desired_accuracy lower acc), RequestWhenInUseAuthorization,
            StartUpdatingLocation]\<rparr>) = Some (d', w6) \<and>
     get_current_location lower use_cache t acc p w =
       (let result =
          (if location_error d' \<noteq> None \<or> location d' = None
           then ErrorResult (description (get_error_info (location_error d')))
           else the (format_location_data (location d')))
        in Some (result, update_cache result (clock w) (call StopUpdatingLocation w6)))"
proof -
  let ?w5 = "w\<lparr>calls := calls w @ [SetDelegate, SetDistanceFilterNone,
            SetDesiredAccuracy (desired_accuracy lower acc), RequestWhenInUseAuthorization,
            StartUpdatingLocation]\<rparr>"
  obtain r where r: "wait_loop (clock w) (min (max 1 t) 30) (min (max 0.1 p) 1.0) init ?w5 = Some r"
    using wait_loop_terminates[OF clamp_polling(1)] by blast
  obtain d' w6 where "r = (d', w6)" by (cases r)
  with r assms show ?thesis
    by (auto simp add: get_current_location_def Let_def call_def)
qed

text \<open>Every call returns: the clamped polling interval is positive, so the loop ends.\<close>

lemma get_current_location_returns:
  "\<exists>r w'. get_current_location lower use_cache t acc p w = Some (r, w')"
proof (cases "use_cache \<and> cache_fresh (location_cache w) (clock w)")
  case True
  then show ?thesis by (simp add: get_current_location_cached)
next
  case False
  show ?thesis
  proof (cases "authorization_status w = kCLAuthorizationStatusDenied")
    case True
    with False show ?thesis by (simp add: get_current_location_denied)
  next
    case False
    from get_current_location_acquire[OF \<open>\<not> (use_cache \<and> cache_fresh (location_cache w) (clock w))\<close> False, where t = t and p = p and acc = acc and lower = lower]
    show ?thesis by (auto simp add: Let_def)
  qed
qed

text \<open>
  An acquisition that gets as far as the sensor stores what it returns, with the time
  read at the start of the call as its timestamp; by the time of the store the clock has
  moved on by at least one polling interval.
\<close>

lemma get_current_location_stores:
  assumes "\<not> (use_cache \<and> cache_fresh (location_cache w) (clock w))"
    and "authorization_status w \<noteq> kCLAuthorizationStatusDenied"
  shows "\<exists>r w'. get_current_location lower use_cache t acc p w = Some (r, w') \<and>
     location_cache w' = (location_cache w)\<lparr>data := Some r, timestamp_c := clock w\<rparr> \<and>
     clock w + min (max 0.1 p) 1.0 \<le> clock w'"
proof -
  let ?T = "min (max 1 t) 30" and ?P = "min (max 0.1 p) 1.0"
  let ?w5 = "w\<lparr>calls := calls w @ [SetDelegate, SetDistanceFilterNone,
            SetDesiredAccuracy (desired_accuracy lower acc), RequestWhenInUseAuthorization,
            StartUpdatingLocation]\<rparr>"
  from get_current_location_acquire[OF assms, where t = t and p = p and acc = acc and lower = lower] obtain d' w6 where
    loop: "wait_loop (clock w) ?T ?P init ?w5 = Some (d', w6)" and
    res: "get_current_location lower use_cache t acc p w =
       (let result =
          (if location_error d' \<noteq> None \<or> location d' = None
           then ErrorResult (description (get_error_info (location_error d')))
           else the (format_location_data (location d')))
        in Some (result, update_cache result (clock w) (call StopUpdatingLocation w6)))"
    by blast
  have pos: "0 < ?P" by simp
  have cache: "location_cache w6 = location_cache w"
    using wait_loop_frame(1)[OF pos loop] by simp
  have first: "wait_loop (clock w) ?T ?P init ?w5 =
      wait_loop (clock w) ?T ?P (fst (runUntilDate ?P init ?w5)) (snd (runUntilDate ?P init ?w5))"
    by (rule wait_loop_step) (simp_all add: init_def)
  have "clock (snd (runUntilDate ?P init ?w5)) \<le> clock w6"
    using wait_loop_frame(4)[OF pos loop[unfolded first]] .
  then have clk: "clock w + ?P \<le> clock w6"
    by (simp add: runUntilDate_frame)
  from res cache clk show ?thesis
    by (simp add: Let_def update_cache_def call_def)
qed

text \<open>
  A sensor that stays silent until the loop has timed out leaves both slots of the
  delegate empty, and the description is the one for a missing error.
\<close>

lemma get_current_location_silent:
  assumes "\<not> (use_cache \<and> cache_fresh (location_cache w) (clock w))"
    and "authorization_status w \<noteq> kCLAuthorizationStatusDenied"
    and "\<forall>e\<in>set (pending w). clock w + real_of_int (min (max 1 t) 30) + min (max 0.1 p) 1.0 \<le> fst e"
  shows "\<exists>w'. get_current_location lower use_cache t acc p w = Some (ErrorResult ''Unknown error'', w')"
proof -
  let ?T = "min (max 1 t) 30" and ?P = "min (max 0.1 p) 1.0"
  let ?w5 = "w\<lparr>calls := calls w @ [SetDelegate, SetDistanceFilterNone,
            SetDesiredAccuracy (desired_accuracy lower acc), RequestWhenInUseAuthorization,
            StartUpdatingLocation]\<rparr>"
  from get_current_location_acquire[OF assms(1,2), where t = t and p = p and acc = acc and lower = lower] obtain d' w6 where
    loop: "wait_loop (clock w) ?T ?P init ?w5 = Some (d', w6)" and
    res: "get_current_location lower use_cache t acc p w =
       (let result =
          (if location_error d' \<noteq> None \<or> location d' = None
           then ErrorResult (description (get_error_info (location_error d')))
           else the (format_location_data (location d')))
        in Some (result, update_cache result (clock w) (call StopUpdatingLocation w6)))"
    by blast
  have pos: "0 < ?P" by simp
  have "\<forall>e\<in>set (pending ?w5). clock w + real_of_int ?T + ?P \<le> fst e"
    using assms(3) by simp
  from wait_loop_silent(1)[OF pos loop this] have "d' = init" .
  with res show ?thesis
    by (simp add: Let_def init_def get_error_info_def)
qed

text \<open>
  A call that is not answered from the cache configures the manager and asks for
  authorisation before anything else.
\<close>

lemma get_current_location_calls:
  assumes "\<not> (use_cache \<and> cache_fresh (location_cache w) (clock w))"
  shows "\<exists>r w' cs. get_current_location lower use_cache t acc p w = Some (r, w') \<and>
     calls w' = calls w @ [SetDelegate, SetDistanceFilterNone,
       SetDesiredAccuracy (desired_accuracy lower acc), RequestWhenInUseAuthorization] @ cs"
proof (cases "authorization_status w = kCLAuthorizationStatusDenied")
  case True
  from get_current_location_denied[OF assms True, where t = t and p = p and acc = acc and lower = lower] show ?thesis by simp
next
  case False
  let ?T = "min (max 1 t) 30" and ?P = "min (max 0.1 p) 1.0"
  let ?w5 = "w\<lparr>calls := calls w @ [SetDelegate, SetDistanceFilterNone,
            SetDesiredAccuracy (desired_accuracy lower acc), RequestWhenInUseAuthorization,
            StartUpdatingLocation]\<rparr>"
  from get_current_location_acquire[OF assms False, where t = t and p = p and acc = acc and lower = lower] obtain d' w6 where
    loop: "wait_loop (clock w) ?T ?P init ?w5 = Some (d', w6)" and
    res: "get_current_location lower use_cache t acc p w =
       (let result =
          (if location_error d' \<noteq> None \<or> location d' = None
           then ErrorResult (description (get_error_info (location_error d')))
           else the (format_location_data (location d')))
        in Some (result, update_cache result (clock w) (call StopUpdatingLocation w6)))"
    by blast
  have pos: "0 < ?P" by simp
  from wait_loop_frame(5)[OF pos loop] obtain k where
    "calls w6 = calls ?w5 @ replicate k (RunUntilDate ?P)" by blast
  with res show ?thesis
    by (simp add: Let_def update_cache_def call_def)
qed

text \<open>
  The whole run against a silent sensor: the failure \<open>Unknown error\<close>, stored with the
  time of the start of the call, after as many passes of the clamped polling interval as
  cover the clamped timeout.
\<close>

lemma get_current_location_silent_run:
  assumes "\<not> (use_cache \<and> cache_fresh (location_cache w) (clock w))"
    and "authorization_status w \<noteq> kCLAuthorizationStatusDenied"
    and "\<forall>e\<in>set (pending w). clock w + real_of_int (min (max 1 t) 30) + min (max 0.1 p) 1.0 \<le> fst e"
  shows "get_current_location lower use_cache t acc p w =
     Some (ErrorResult ''Unknown error'',
       w\<lparr>location_cache := (location_cache w)\<lparr>data := Some (ErrorResult ''Unknown error''),
              timestamp_c := clock w\<rparr>,
          clock := clock w +
            real (nat \<lceil>real_of_int (min (max 1 t) 30) / min (max 0.1 p) 1.0\<rceil>) * min (max 0.1 p) 1.0,
          calls := calls w @
            [SetDelegate, SetDistanceFilterNone, SetDesiredAccuracy (desired_accuracy lower acc),
             RequestWhenInUseAuthorization, StartUpdatingLocation] @
            replicate (nat \<lceil>real_of_int (min (max 1 t) 30) / min (max 0.1 p) 1.0\<rceil>)
              (RunUntilDate (min (max 0.1 p) 1.0)) @
            [StopUpdatingLocation]\<rparr>)"
proof -
  let ?T = "min (max 1 t) 30" and ?P = "min (max 0.1 p) 1.0"
  let ?n = "nat \<lceil>real_of_int ?T / ?P\<rceil>"
  let ?w5 = "w\<lparr>calls := calls w @ [SetDelegate, SetDistanceFilterNone,
            SetDesiredAccuracy (desired_accuracy lower acc), RequestWhenInUseAuthorization,
            StartUpdatingLocation]\<rparr>"
  have pos: "0 < ?P" by simp
  have quiet: "\<not> is_updated init" by (simp add: init_def)
  have silent: "\<forall>e\<in>set (pending ?w5). clock w + real_of_int ?T + ?P \<le> fst e"
    using assms(3) by simp
  have n: "nat \<lceil>(clock w + real_of_int ?T - clock ?w5) / ?P\<rceil> = ?n" by simp
  have loop: "wait_loop (clock w) ?T ?P init ?w5 =
      Some (init, ?w5\<lparr>clock := clock ?w5 + real ?n * ?P,
                   calls := calls ?w5 @ replicate ?n (RunUntilDate ?P)\<rparr>)"
    by (rule wait_loop_silent_run[OF pos quiet silent n])
  from get_current_location_acquire[OF assms(1,2), where t = t and p = p and acc = acc and lower = lower]
  obtain d' w6 where
    "wait_loop (clock w) ?T ?P init ?w5 = Some (d', w6)" and
    res: "get_current_location lower use_cache t acc p w =
       (let result =
          (if location_error d' \<noteq> None \<or> location d' = None
           then ErrorResult (description (get_error_info (location_error d')))
           else the (format_location_data (location d')))
        in Some (result, update_cache result (clock w) (call StopUpdatingLocation w6)))"
    by blast
  with loop have "d' = init"
    and "w6 = ?w5\<lparr>clock := clock ?w5 + real ?n * ?P,
                   calls := calls ?w5 @ replicate ?n (RunUntilDate ?P)\<rparr>" by simp_all
  with res show ?thesis
    by (simp add: Let_def init_def get_error_info_def update_cache_def call_def)
qed

text \<open>
  What a call that is not answered from the cache returns does not depend on what the
  cache holds.
\<close>

lemma get_current_location_cache_irrelevant:
  assumes "\<not> (use_cache \<and> cache_fresh (location_cache w) (clock w))"
    and "\<not> (use_cache \<and> cache_fresh c (clock w))"
  shows "map_option fst (get_current_location lower use_cache t acc p (w\<lparr>location_cache := c\<rparr>)) =
     map_option fst (get_current_location lower use_cache t acc p w)"
proof (cases "authorization_status w = kCLAuthorizationStatusDenied")
  case True
  from assms True show ?thesis
    by (simp add: get_current_location_denied)
next
  case False
  let ?T = "min (max 1 t) 30" and ?P = "min (max 0.1 p) 1.0"
  let ?w5 = "w\<lparr>calls := calls w @ [SetDelegate, SetDistanceFilterNone,
            SetDesiredAccuracy (desired_accuracy lower acc), RequestWhenInUseAuthorization,
            StartUpdatingLocation]\<rparr>"
  let ?v = "w\<lparr>location_cache := c\<rparr>"
  have pos: "0 < ?P" by simp
  from wait_loop_cache[OF pos, of "clock w" ?T init ?w5 c] obtain r where
    r: "wait_loop (clock w) ?T ?P init ?w5 = Some r"
    "wait_loop (clock w) ?T ?P init (?w5\<lparr>location_cache := c\<rparr>) = Some (fst r, (snd r)\<lparr>location_cache := c\<rparr>)"
    by blast
  have v5: "?v\<lparr>calls := calls ?v @ [SetDelegate, SetDistanceFilterNone,
            SetDesiredAccuracy (desired_accuracy lower acc), RequestWhenInUseAuthorization,
            StartUpdatingLocation]\<rparr> = ?w5\<lparr>location_cache := c\<rparr>" by simp
  have a: "\<not> (use_cache \<and> cache_fresh (location_cache ?v) (clock ?v))" using assms(2) by simp
  have b: "authorization_status ?v \<noteq> kCLAuthorizationStatusDenied" using False by simp
  from get_current_location_acquire[OF a b, where t = t and p = p and acc = acc and lower = lower] r(2)
  have A: "map_option fst (get_current_location lower use_cache t acc p ?v) =
      Some (if location_error (fst r) \<noteq> None \<or> location (fst r) = None
           then ErrorResult (description (get_error_info (location_error (fst r))))
           else the (format_location_data (location (fst r))))"
    unfolding v5 by (auto simp add: Let_def)
  from get_current_location_acquire[OF assms(1) False, where t = t and p = p and acc = acc and lower = lower] r(1)
  have B: "map_option fst (get_current_location lower use_cache t acc p w) =
      Some (if location_error (fst r) \<noteq> None \<or> location (fst r) = None
           then ErrorResult (description (get_error_info (location_error (fst r))))
           else the (format_location_data (location (fst r))))"
    by (auto simp add: Let_def)
  show ?thesis by (simp only: A B)
qed

subsection \<open>Evaluating the model on an example\<close>

lemmas run_simps = get_current_location_def Let_def cache_fresh_def call_def
  wait_loop_step wait_loop_exit runUntilDate_def init_def update_cache_def get_error_info_def
  initial_cache_def quiet_world_def denied_world_def

lemma desired_accuracy_best: "desired_accuracy lower_ascii ''best'' = kCLLocationAccuracyBest"
  by (simp add: desired_accuracy_def accuracy_map_def lower_ascii_def lower_char_def)

section \<open>Storing the outcome\<close>

text \<open>
  The outcome of an acquisition is in the cache when the call returns, and a call with
  \<^verbatim>\<open>use_cache=True\<close> made while the entry is fresh returns it.
\<close>

lemma bypass_then_refresh:
  assumes "\<not> (use_cache \<and> cache_fresh (location_cache w) (clock w))"
    and "authorization_status w \<noteq> kCLAuthorizationStatusDenied"
  shows "\<exists>r w'. get_current_location lower use_cache t acc p w = Some (r, w') \<and>
     (\<forall>now. now - clock w < real_of_int (cache_duration (location_cache w)) \<longrightarrow>
        get_current_location lower' True t' acc' p' (w'\<lparr>clock := now\<rparr>) = Some (r, w'\<lparr>clock := now\<rparr>))"
proof -
  from get_current_location_stores[OF assms, where t = t and p = p and acc = acc and lower = lower] obtain r w' where
    res: "get_current_location lower use_cache t acc p w = Some (r, w')" and
    cache: "location_cache w' = (location_cache w)\<lparr>data := Some r, timestamp_c := clock w\<rparr>"
    by blast
  have "get_current_location lower' True t' acc' p' (w'\<lparr>clock := now\<rparr>) = Some (r, w'\<lparr>clock := now\<rparr>)"
    if "now - clock w < real_of_int (cache_duration (location_cache w))" for now
    using that cache get_current_location_cached[where use_cache = True and w = "w'\<lparr>clock := now\<rparr>" and t = t' and acc = acc' and p = p' and lower = lower']
    by (simp add: cache_fresh_def)
  with res show ?thesis by blast
qed

text \<open>
  C1. The specification has every return path that is not the cache short-circuit store
  its outcome, the early return on denied authorisation included, as the path after the
  wait loop does (\<open>bypass_then_refresh\<close>). The early return does not: with
  authorisation denied, a call that is not answered from the cache returns the failure
  \<^verbatim>\<open>{"error": "Unknown error"}\<close> and leaves the cache and the clock exactly as they
  were, so a following call with \<^verbatim>\<open>use_cache=True\<close> does not find that outcome.
\<close>

theorem denied_path_skips_store:
  assumes "\<not> (use_cache \<and> cache_fresh (location_cache w) (clock w))"
    and "authorization_status w = kCLAuthorizationStatusDenied"
  shows "\<exists>w'. get_current_location lower use_cache timeout acc polling_interval w =
        Some (ErrorResult ''Unknown error'', w') \<and>
     location_cache w' = location_cache w \<and> clock w' = clock w"
  using get_current_location_denied[OF assms, where t = timeout and p = polling_interval and acc = acc and lower = lower] by simp

theorem denied_path_skips_store_witness:
  "get_current_location lower_ascii False 15 ''best'' 0.25 denied_world =
     Some (ErrorResult ''Unknown error'',
       denied_world\<lparr>calls := [SetDelegate, SetDistanceFilterNone,
          SetDesiredAccuracy kCLLocationAccuracyBest, RequestWhenInUseAuthorization]\<rparr>) \<and>
   data (location_cache (denied_world\<lparr>calls := [SetDelegate, SetDistanceFilterNone,
          SetDesiredAccuracy kCLLocationAccuracyBest, RequestWhenInUseAuthorization]\<rparr>)) = None \<and>
   \<not> cache_fresh (location_cache (denied_world\<lparr>calls := [SetDelegate, SetDistanceFilterNone,
          SetDesiredAccuracy kCLLocationAccuracyBest, RequestWhenInUseAuthorization]\<rparr>)) 100"
  using denied_path_skips_store [where lower = lower_ascii and w = denied_world and use_cache = False and timeout = 15
      and acc = "''best''" and polling_interval = "0.25"]
  by (simp add: run_simps desired_accuracy_best)

section \<open>The cache status\<close>

lemma get_cache_status_empty:
  "data (location_cache w) = None \<Longrightarrow>
   get_cache_status w =
     \<lparr>has_cached_data = False, cache_duration_s = cache_duration (location_cache w),
      seconds_since_update = 0, seconds_until_expiration = 0, is_expired = True\<rparr>"
  by (simp add: get_cache_status_def Let_def)

lemma get_cache_status_stored:
  "data (location_cache w) \<noteq> None \<Longrightarrow>
   get_cache_status w =
     \<lparr>has_cached_data = True, cache_duration_s = cache_duration (location_cache w),
      seconds_since_update = clock w - timestamp_c (location_cache w),
      seconds_until_expiration =
        max 0 (real_of_int (cache_duration (location_cache w)) - (clock w - timestamp_c (location_cache w))),
      is_expired = (real_of_int (cache_duration (location_cache w)) < clock w - timestamp_c (location_cache w))\<rparr>"
  by (simp add: get_cache_status_def Let_def)

lemma get_cache_status_off_boundary:
  "data (location_cache w) \<noteq> None \<Longrightarrow>
   clock w - timestamp_c (location_cache w) \<noteq> real_of_int (cache_duration (location_cache w)) \<Longrightarrow>
   is_expired (get_cache_status w) \<longleftrightarrow> \<not> cache_fresh (location_cache w) (clock w)"
  by (auto simp add: get_cache_status_def cache_fresh_def Let_def)

text \<open>
  C2. \<^verbatim>\<open>get_cache_status\<close> and the freshness test of \<^verbatim>\<open>get_current_location\<close>
  disagree when the age of the entry equals the duration: the status says that the
  entry has not expired (with 0 seconds left), the freshness test says that it is not
  fresh. Everywhere else they agree (\<open>get_cache_status_off_boundary\<close>).
\<close>

theorem status_disagrees_at_expiry:
  assumes "data (location_cache w) \<noteq> None"
    and "clock w - timestamp_c (location_cache w) = real_of_int (cache_duration (location_cache w))"
  shows "\<not> is_expired (get_cache_status w) \<and> \<not> cache_fresh (location_cache w) (clock w) \<and>
     seconds_until_expiration (get_cache_status w) = 0"
  using assms by (simp add: get_cache_status_def cache_fresh_def Let_def)

theorem status_disagrees_at_expiry_witness:
  "is_expired (get_cache_status ((update_cache (LocationResult example_fix) 100 quiet_world)\<lparr>clock := 130\<rparr>)) = False \<and>
   cache_fresh (location_cache ((update_cache (LocationResult example_fix) 100 quiet_world)\<lparr>clock := 130\<rparr>)) 130 = False"
  using status_disagrees_at_expiry [where w = "(update_cache (LocationResult example_fix) 100 quiet_world)\<lparr>clock := 130\<rparr>"]
  by (simp add: quiet_world_def initial_cache_def update_cache_def)

section \<open>Timeouts\<close>

text \<open>
  C3, amended. When the acquisition is not answered from the cache, authorisation is
  not denied and no notification falls due before the wait loop has timed out, the call
  returns the failure whose description is \<^verbatim>\<open>_get_error_info(None)\<close>'s, which is
  \<open>Unknown error\<close>.
\<close>

theorem timeout_reports_unknown_error:
  assumes "\<not> (use_cache \<and> cache_fresh (location_cache w) (clock w))"
    and "authorization_status w \<noteq> kCLAuthorizationStatusDenied"
    and "\<forall>e\<in>set (pending w). clock w + real_of_int (min (max 1 timeout) 30) + min (max 0.1 polling_interval) 1.0 \<le> fst e"
  shows "map_option fst (get_current_location lower use_cache timeout acc polling_interval w) =
     Some (ErrorResult (description (get_error_info None))) \<and>
     description (get_error_info None) = ''Unknown error''"
  using get_current_location_silent[OF assms, where acc = acc and lower = lower] by (auto simp add: get_error_info_def)

theorem timeout_reports_unknown_error_witness:
  "map_option fst (get_current_location lower_ascii True 2 ''navigation'' 0.5
      (quiet_world\<lparr>pending := [(103, DidFailWithError (CLError 1))]\<rparr>)) =
     Some (ErrorResult ''Unknown error'')"
  using timeout_reports_unknown_error [where lower = lower_ascii and use_cache = True and timeout = 2 and acc = "''navigation''"
      and polling_interval = "0.5"
      and w = "quiet_world\<lparr>pending := [(103, DidFailWithError (CLError 1))]\<rparr>"]
  by (simp add: quiet_world_def initial_cache_def cache_fresh_def get_error_info_def)

text \<open>
  C3, counterexample to the description \<open>Unable to determine location\<close>: with a
  sensor that never notifies, the description returned is \<open>Unknown error\<close>.
\<close>

theorem timeout_description_counterexample:
  "pending quiet_world = [] \<and>
   map_option fst (get_current_location lower_ascii False 1 ''best'' 1 quiet_world) =
     Some (ErrorResult ''Unknown error'') \<and>
   map_option fst (get_current_location lower_ascii False 1 ''best'' 1 quiet_world) \<noteq>
     Some (ErrorResult ''Unable to determine location'')"
  by (simp add: run_simps)

section \<open>The stored timestamp\<close>

text \<open>
  C4. The specification has the time of the store as the timestamp of the entry. The
  code stores \<^verbatim>\<open>current_time\<close>, read at the start of the call before the cache
  check: for every call that runs the sensor, the stored timestamp is the clock at the
  start of the call, and the clock at the store is later by at least the polling
  interval.
\<close>

theorem stored_timestamp_is_call_start:
  assumes "\<not> (use_cache \<and> cache_fresh (location_cache w) (clock w))"
    and "authorization_status w \<noteq> kCLAuthorizationStatusDenied"
  shows "\<exists>r w'. get_current_location lower use_cache timeout acc polling_interval w = Some (r, w') \<and>
     data (location_cache w') = Some r \<and>
     timestamp_c (location_cache w') = clock w \<and>
     clock w + min (max 0.1 polling_interval) 1.0 \<le> clock w'"
  using get_current_location_stores[OF assms, where t = timeout and p = polling_interval and acc = acc and lower = lower] by auto

theorem stored_timestamp_is_call_start_witness:
  "\<exists>r w'. get_current_location lower_ascii True 3 ''best'' 0.2
       (quiet_world\<lparr>pending := [(100.5, DidUpdateLocations (CLLocation example_fix) [])]\<rparr>) = Some (r, w') \<and>
     data (location_cache w') = Some r \<and>
     timestamp_c (location_cache w') = 100 \<and>
     100.2 \<le> clock w'"
  using stored_timestamp_is_call_start [where lower = lower_ascii and use_cache = True and timeout = 3 and acc = "''best''"
      and polling_interval = "0.2"
      and w = "quiet_world\<lparr>pending := [(100.5, DidUpdateLocations (CLLocation example_fix) [])]\<rparr>"]
  by (simp add: quiet_world_def initial_cache_def cache_fresh_def)

section \<open>Freshness\<close>

text \<open>
  C5. Store an outcome with timestamp \<open>stored_at\<close> and look at the cache at time
  \<open>now\<close>: the entry is fresh exactly when \<open>now - stored_at\<close> is less than the
  duration. When it is, \<^verbatim>\<open>get_current_location(use_cache=True)\<close> returns the stored
  outcome and changes nothing. When it is not, the stored outcome is not served: the call
  is the call with \<^verbatim>\<open>use_cache=False\<close>, what it returns is the same whatever outcome
  was stored, and it goes to the location manager.
\<close>

theorem cache_freshness:
  "(let w' = (update_cache r stored_at w)\<lparr>clock := now\<rparr>;
        d = real_of_int (cache_duration (location_cache w))
    in (cache_fresh (location_cache w') (clock w') \<longleftrightarrow> now - stored_at < d) \<and>
       (now - stored_at < d \<longrightarrow>
          get_current_location lower True timeout acc polling_interval w' = Some (r, w')) \<and>
       (\<not> now - stored_at < d \<longrightarrow>
          get_current_location lower True timeout acc polling_interval w' =
            get_current_location lower False timeout acc polling_interval w' \<and>
          (\<forall>r2. map_option fst (get_current_location lower True timeout acc polling_interval
                   ((update_cache r2 stored_at w)\<lparr>clock := now\<rparr>)) =
                map_option fst (get_current_location lower True timeout acc polling_interval w')) \<and>
          (\<exists>r' w'' cs. get_current_location lower True timeout acc polling_interval w' = Some (r', w'') \<and>
             calls w'' = calls w' @ [SetDelegate, SetDistanceFilterNone,
               SetDesiredAccuracy (desired_accuracy lower acc), RequestWhenInUseAuthorization] @ cs)))"
proof -
  let ?w = "(update_cache r stored_at w)\<lparr>clock := now\<rparr>"
  let ?d = "real_of_int (cache_duration (location_cache w))"
  have fresh: "cache_fresh (location_cache ?w) (clock ?w) \<longleftrightarrow> now - stored_at < ?d"
    by (simp add: cache_fresh_def update_cache_def)
  have hit: "get_current_location lower True timeout acc polling_interval ?w = Some (r, ?w)"
    if "now - stored_at < ?d"
    using that fresh get_current_location_cached[where use_cache = True and w = ?w and t = timeout
        and acc = acc and p = polling_interval and lower = lower]
    by (simp add: update_cache_def)
  have bypass: "get_current_location lower True timeout acc polling_interval ?w =
      get_current_location lower False timeout acc polling_interval ?w"
    if "\<not> now - stored_at < ?d"
    using that fresh by (simp add: get_current_location_def)
  have other: "map_option fst (get_current_location lower True timeout acc polling_interval
                   ((update_cache r2 stored_at w)\<lparr>clock := now\<rparr>)) =
                map_option fst (get_current_location lower True timeout acc polling_interval ?w)"
    if "\<not> now - stored_at < ?d" for r2
  proof -
    have eq: "(update_cache r2 stored_at w)\<lparr>clock := now\<rparr> =
        ?w\<lparr>location_cache := (location_cache w)\<lparr>data := Some r2, timestamp_c := stored_at\<rparr>\<rparr>"
      by (simp add: update_cache_def)
    have a: "\<not> (True \<and> cache_fresh (location_cache ?w) (clock ?w))"
      using that fresh by simp
    have b: "\<not> (True \<and> cache_fresh ((location_cache w)\<lparr>data := Some r2, timestamp_c := stored_at\<rparr>) (clock ?w))"
      using that by (simp add: cache_fresh_def)
    show ?thesis
      unfolding eq by (rule get_current_location_cache_irrelevant[OF a b])
  qed
  have miss: "\<exists>r' w'' cs. get_current_location lower True timeout acc polling_interval ?w = Some (r', w'') \<and>
             calls w'' = calls ?w @ [SetDelegate, SetDistanceFilterNone,
               SetDesiredAccuracy (desired_accuracy lower acc), RequestWhenInUseAuthorization] @ cs"
    if "\<not> now - stored_at < ?d"
    using that fresh get_current_location_calls[where use_cache = True and w = ?w and t = timeout
        and acc = acc and p = polling_interval and lower = lower] by blast
  from fresh hit bypass other miss show ?thesis
    unfolding Let_def by blast
qed

theorem cache_freshness_witness:
  "cache_fresh (location_cache ((update_cache (LocationResult example_fix) 100 quiet_world)\<lparr>clock := 129\<rparr>)) 129 \<and>
   get_current_location lower_ascii True 1 ''best'' 1
       ((update_cache (LocationResult example_fix) 100 quiet_world)\<lparr>clock := 129\<rparr>) =
     Some (LocationResult example_fix,
       (update_cache (LocationResult example_fix) 100 quiet_world)\<lparr>clock := 129\<rparr>) \<and>
   \<not> cache_fresh (location_cache ((update_cache (LocationResult example_fix) 100 quiet_world)\<lparr>clock := 130\<rparr>)) 130 \<and>
   map_option fst (get_current_location lower_ascii True 1 ''best'' 1
       ((update_cache (LocationResult example_fix) 100 quiet_world)\<lparr>clock := 130\<rparr>)) =
     Some (ErrorResult ''Unknown error'')"
  using cache_freshness [where lower = lower_ascii and r = "LocationResult example_fix" and stored_at = 100 and w = quiet_world
      and now = 129 and timeout = 1 and acc = "''best''" and polling_interval = 1]
    cache_freshness [where lower = lower_ascii and r = "LocationResult example_fix" and stored_at = 100 and w = quiet_world
      and now = 130 and timeout = 1 and acc = "''best''" and polling_interval = 1]
  by (simp add: run_simps)

section \<open>Denied authorisation\<close>

text \<open>
  C6, amended. With authorisation denied, \<^verbatim>\<open>get_current_location\<close> returns at once:
  it never starts the sensor and never runs the wait loop, and the world differs from
  the one before only by the calls that configure the manager and ask for authorisation.
  The result is the failure \<open>Unknown error\<close> unless the call is answered from a fresh
  cache entry, in which case it is the cached outcome.
\<close>

theorem denied_fast_fail:
  assumes "authorization_status w = kCLAuthorizationStatusDenied"
  shows "\<exists>r cs. get_current_location lower use_cache timeout acc polling_interval w =
        Some (r, w\<lparr>calls := calls w @ cs\<rparr>) \<and>
     StartUpdatingLocation \<notin> set cs \<and> (\<forall>i. RunUntilDate i \<notin> set cs) \<and>
     (if use_cache \<and> cache_fresh (location_cache w) (clock w)
      then data (location_cache w) = Some r
      else r = ErrorResult ''Unknown error'')"
proof (cases "use_cache \<and> cache_fresh (location_cache w) (clock w)")
  case True
  then have "get_current_location lower use_cache timeout acc polling_interval w =
      Some (the (data (location_cache w)), w\<lparr>calls := calls w @ []\<rparr>)"
    by (simp add: get_current_location_cached)
  moreover from True have "data (location_cache w) = Some (the (data (location_cache w)))"
    by (simp add: cache_fresh_def)
  ultimately show ?thesis using True by fastforce
next
  case False
  from get_current_location_denied[OF False assms, where t = timeout and p = polling_interval and acc = acc and lower = lower] False
  show ?thesis by fastforce
qed

theorem denied_fast_fail_witness:
  "get_current_location lower_ascii False 30 ''best'' 0.25 denied_world =
     Some (ErrorResult ''Unknown error'',
       denied_world\<lparr>calls := [SetDelegate, SetDistanceFilterNone,
          SetDesiredAccuracy kCLLocationAccuracyBest, RequestWhenInUseAuthorization]\<rparr>)"
  using denied_fast_fail [where lower = lower_ascii and w = denied_world and use_cache = False and timeout = 30
      and acc = "''best''" and polling_interval = "0.25"]
  by (simp add: run_simps desired_accuracy_best)

text \<open>
  C6, counterexample to a failure on every call under denied authorisation: with a
  fresh position fix in the cache and \<^verbatim>\<open>use_cache=True\<close>, the call returns the fix.
\<close>

theorem denied_with_fresh_cache_counterexample:
  "authorization_status
     ((update_cache (LocationResult example_fix) 95 denied_world)) = kCLAuthorizationStatusDenied \<and>
   get_current_location lower_ascii True 15 ''best'' 0.25 (update_cache (LocationResult example_fix) 95 denied_world) =
     Some (LocationResult example_fix, update_cache (LocationResult example_fix) 95 denied_world)"
  by (simp add: run_simps)

section \<open>The cache duration\<close>

text \<open>
  C7. For every integer \<open>seconds\<close>, \<^verbatim>\<open>set_cache_duration(seconds)\<close> stores and returns
  a duration between 5 and 300: 1 gives 5, 1000 gives 300, and a value already in the
  range is stored as it is. Nothing else in the world changes.
\<close>

theorem set_cache_duration_clamp:
  "5 \<le> fst (set_cache_duration seconds w) \<and> fst (set_cache_duration seconds w) \<le> 300 \<and>
   cache_duration (location_cache (snd (set_cache_duration seconds w))) =
     fst (set_cache_duration seconds w) \<and>
   fst (set_cache_duration 1 w) = 5 \<and>
   fst (set_cache_duration 1000 w) = 300 \<and>
   (5 \<le> seconds \<and> seconds \<le> 300 \<longrightarrow> fst (set_cache_duration seconds w) = seconds) \<and>
   snd (set_cache_duration seconds w) =
     w\<lparr>location_cache := (location_cache w)\<lparr>cache_duration := fst (set_cache_duration seconds w)\<rparr>\<rparr>"
  by (simp add: set_cache_duration_def Let_def)

theorem set_cache_duration_clamp_witness:
  "fst (set_cache_duration 42 quiet_world) = 42 \<and>
   cache_duration (location_cache (snd (set_cache_duration 42 quiet_world))) = 42 \<and>
   fst (set_cache_duration (- 7) quiet_world) = 5 \<and>
   fst (set_cache_duration 301 quiet_world) = 300"
  using set_cache_duration_clamp [of 42 quiet_world]
  by (simp add: set_cache_duration_def Let_def)

section \<open>The asynchronous request\<close>

text \<open>
  C8, amended. A \<^verbatim>\<open>callback_route\<close> that is missing, empty, rejected by the parser or
  parsed with an empty scheme or an empty network location makes
  \<^verbatim>\<open>get_location_async\<close> return an error at once; the world is unchanged, so no
  thread is started, no platform call is made and the cache is as before. Every other
  route is accepted: one thread is started and the request is reported as started.
\<close>

theorem get_location_async_validation:
  "(\<not> (\<exists>route parsed. callback_route = Some route \<and> route \<noteq> [] \<and>
            urlparse route = Some parsed \<and> scheme parsed \<noteq> [] \<and> netloc parsed \<noteq> []) \<longrightarrow>
      (\<exists>msg. get_location_async urlparse callback_route acc w = (AsyncError msg, w))) \<and>
   (\<forall>route parsed. callback_route = Some route \<and> route \<noteq> [] \<and>
            urlparse route = Some parsed \<and> scheme parsed \<noteq> [] \<and> netloc parsed \<noteq> [] \<longrightarrow>
      get_location_async urlparse callback_route acc w =
        (LocationRequestStarted route acc, w\<lparr>threads := threads w @ [(route, acc)]\<rparr>))"
  by (auto simp add: get_location_async_def split: option.splits)

theorem get_location_async_validation_witness:
  "get_location_async (\<lambda>s. if s = ''not-a-url'' then Some \<lparr>scheme = [], netloc = []\<rparr> else None)
       (Some ''not-a-url'') ''best'' quiet_world =
     (AsyncError ''Invalid callback_route format. Must be a valid URL.'', quiet_world) \<and>
   get_location_async (\<lambda>s. if s = ''http://example.com/cb'' then Some \<lparr>scheme = ''http'', netloc = ''example.com''\<rparr> else None)
       (Some ''http://example.com/cb'') ''best'' quiet_world =
     (LocationRequestStarted ''http://example.com/cb'' ''best'',
      quiet_world\<lparr>threads := [(''http://example.com/cb'', ''best'')]\<rparr>)"
  using get_location_async_validation [where callback_route = "Some ''not-a-url''"
      and urlparse = "\<lambda>s. if s = ''not-a-url'' then Some \<lparr>scheme = [], netloc = []\<rparr> else None"
      and acc = "''best''" and w = quiet_world]
    get_location_async_validation [where callback_route = "Some ''http://example.com/cb''"
      and urlparse = "\<lambda>s. if s = ''http://example.com/cb'' then Some \<lparr>scheme = ''http'', netloc = ''example.com''\<rparr> else None"
      and acc = "''best''" and w = quiet_world]
  by (simp add: get_location_async_def quiet_world_def)

text \<open>
  C8, counterexample to the rejection of every route without a host: \<^verbatim>\<open>http://:80\<close>
  parses to the scheme \<open>http\<close> and the network location \<open>:80\<close>, which names no
  host; the route is accepted and a thread is started.
\<close>

theorem hostless_route_counterexample:
  "hostname '':80'' = [] \<and>
   get_location_async (\<lambda>s. if s = ''http://:80'' then Some \<lparr>scheme = ''http'', netloc = '':80''\<rparr> else None)
       (Some ''http://:80'') ''best'' quiet_world =
     (LocationRequestStarted ''http://:80'' ''best'',
      quiet_world\<lparr>threads := [(''http://:80'', ''best'')]\<rparr>)"
  by (simp add: hostname_def get_location_async_def quiet_world_def)

section \<open>Clamped parameters\<close>

text \<open>
  C9. \<^verbatim>\<open>get_current_location(timeout=0, polling_interval=5.0)\<close> returns the same
  result and leaves the same world as \<^verbatim>\<open>timeout=1, polling_interval=1.0\<close>, for
  every world. In general a call behaves as the call with its timeout clamped to 1..30
  and its polling interval clamped to 0.1..1.0, and it always returns a result. The
  clamped values are the ones the acquisition runs with: the wait loop is entered with
  them, and against a silent sensor the call log shows as many passes of the clamped
  polling interval as cover the clamped timeout, and the clock has advanced by as much.
\<close>

theorem parameter_clamp:
  "get_current_location lower use_cache 0 acc 5.0 w = get_current_location lower use_cache 1 acc 1.0 w \<and>
   get_current_location lower use_cache timeout acc polling_interval w =
     get_current_location lower use_cache (min (max 1 timeout) 30) acc
       (min (max 0.1 polling_interval) 1.0) w \<and>
   (\<exists>r w'. get_current_location lower use_cache timeout acc polling_interval w = Some (r, w')) \<and>
   (\<not> (use_cache \<and> cache_fresh (location_cache w) (clock w)) \<and>
    authorization_status w \<noteq> kCLAuthorizationStatusDenied \<longrightarrow>
      (\<exists>d' w6.
         wait_loop (clock w) (min (max 1 timeout) 30) (min (max 0.1 polling_interval) 1.0) init
           (w\<lparr>calls := calls w @ [SetDelegate, SetDistanceFilterNone,
                SetDesiredAccuracy (desired_accuracy lower acc), RequestWhenInUseAuthorization,
                StartUpdatingLocation]\<rparr>) = Some (d', w6) \<and>
         get_current_location lower use_cache timeout acc polling_interval w =
           (let result =
              (if location_error d' \<noteq> None \<or> location d' = None
               then ErrorResult (description (get_error_info (location_error d')))
               else the (format_location_data (location d')))
            in Some (result, update_cache result (clock w) (call StopUpdatingLocation w6))))) \<and>
   (\<not> (use_cache \<and> cache_fresh (location_cache w) (clock w)) \<and>
    authorization_status w \<noteq> kCLAuthorizationStatusDenied \<and>
    (\<forall>e\<in>set (pending w). clock w + real_of_int (min (max 1 timeout) 30) +
        min (max 0.1 polling_interval) 1.0 \<le> fst e) \<longrightarrow>
      get_current_location lower use_cache timeout acc polling_interval w =
        Some (ErrorResult ''Unknown error'',
          w\<lparr>location_cache := (location_cache w)\<lparr>data := Some (ErrorResult ''Unknown error''),
                 timestamp_c := clock w\<rparr>,
             clock := clock w +
               real (nat \<lceil>real_of_int (min (max 1 timeout) 30) / min (max 0.1 polling_interval) 1.0\<rceil>) *
                 min (max 0.1 polling_interval) 1.0,
             calls := calls w @
               [SetDelegate, SetDistanceFilterNone, SetDesiredAccuracy (desired_accuracy lower acc),
                RequestWhenInUseAuthorization, StartUpdatingLocation] @
               replicate (nat \<lceil>real_of_int (min (max 1 timeout) 30) / min (max 0.1 polling_interval) 1.0\<rceil>)
                 (RunUntilDate (min (max 0.1 polling_interval) 1.0)) @
               [StopUpdatingLocation]\<rparr>))"
proof -
  have a: "get_current_location lower use_cache 0 acc 5.0 w = get_current_location lower use_cache 1 acc 1.0 w"
    by (simp add: get_current_location_def)
  have b: "get_current_location lower use_cache timeout acc polling_interval w =
     get_current_location lower use_cache (min (max 1 timeout) 30) acc (min (max 0.1 polling_interval) 1.0) w"
    by (simp add: get_current_location_def)
  note c = get_current_location_returns[where use_cache = use_cache and t = timeout and acc = acc
      and p = polling_interval and w = w and lower = lower]
  note d = get_current_location_acquire[where use_cache = use_cache and t = timeout and acc = acc
      and p = polling_interval and w = w and lower = lower]
  note e = get_current_location_silent_run[where use_cache = use_cache and t = timeout and acc = acc
      and p = polling_interval and w = w and lower = lower]
  show ?thesis
    apply (intro conjI impI)
        apply (rule a)
       apply (rule b)
      apply (rule c)
     apply (rule d; blast)
    apply (rule e; blast)
    done
qed

theorem parameter_clamp_witness:
  "get_current_location lower_ascii False 0 ''best'' 5.0 quiet_world =
     Some (ErrorResult ''Unknown error'',
       \<lparr>location_cache = \<lparr>data = Some (ErrorResult ''Unknown error''), timestamp_c = 100, cache_duration = 30\<rparr>,
        clock = 101,
        authorization_status = kCLAuthorizationStatusAuthorizedAlways,
        pending = [],
        calls = [SetDelegate, SetDistanceFilterNone, SetDesiredAccuracy kCLLocationAccuracyBest,
          RequestWhenInUseAuthorization, StartUpdatingLocation, RunUntilDate 1, StopUpdatingLocation],
        threads = []\<rparr>) \<and>
   get_current_location lower_ascii False 0 ''best'' 5.0 quiet_world =
     get_current_location lower_ascii False 1 ''best'' 1.0 quiet_world \<and>
   map_option (clock \<circ> snd) (get_current_location lower_ascii False 31 ''best'' 0.05 quiet_world) = Some 130 \<and>
   map_option (length \<circ> calls \<circ> snd) (get_current_location lower_ascii False 31 ''best'' 0.05 quiet_world) = Some 306"
proof -
  note low = parameter_clamp [where lower = lower_ascii and use_cache = False and acc = "''best''"
      and w = quiet_world and timeout = 0 and polling_interval = "5.0"]
  note high = parameter_clamp [where lower = lower_ascii and use_cache = False and acc = "''best''"
      and w = quiet_world and timeout = 31 and polling_interval = "0.05"]
  have a: "get_current_location lower_ascii False 0 ''best'' 5.0 quiet_world =
     Some (ErrorResult ''Unknown error'',
       \<lparr>location_cache = \<lparr>data = Some (ErrorResult ''Unknown error''), timestamp_c = 100, cache_duration = 30\<rparr>,
        clock = 101,
        authorization_status = kCLAuthorizationStatusAuthorizedAlways,
        pending = [],
        calls = [SetDelegate, SetDistanceFilterNone, SetDesiredAccuracy kCLLocationAccuracyBest,
          RequestWhenInUseAuthorization, StartUpdatingLocation, RunUntilDate 1, StopUpdatingLocation],
        threads = []\<rparr>)"
    using low [THEN conjunct2, THEN conjunct2, THEN conjunct2, THEN conjunct2]
    by (simp add: quiet_world_def initial_cache_def desired_accuracy_best)
  have b: "get_current_location lower_ascii False 0 ''best'' 5.0 quiet_world =
     get_current_location lower_ascii False 1 ''best'' 1.0 quiet_world"
    using low [THEN conjunct1] .
  have c: "get_current_location lower_ascii False 31 ''best'' 0.05 quiet_world =
     Some (ErrorResult ''Unknown error'',
       quiet_world\<lparr>location_cache := \<lparr>data = Some (ErrorResult ''Unknown error''), timestamp_c = 100, cache_duration = 30\<rparr>,
        clock := 130,
        calls := [SetDelegate, SetDistanceFilterNone, SetDesiredAccuracy kCLLocationAccuracyBest,
          RequestWhenInUseAuthorization, StartUpdatingLocation] @ replicate 300 (RunUntilDate 0.1) @
          [StopUpdatingLocation]\<rparr>)"
    using high [THEN conjunct2, THEN conjunct2, THEN conjunct2, THEN conjunct2]
    by (simp add: quiet_world_def initial_cache_def desired_accuracy_best)
  from a b c show ?thesis by simp
qed

section \<open>Clearing the cache\<close>

text \<open>
  C10. \<^verbatim>\<open>clear_location_cache\<close> empties the cache and resets its timestamp to 0 but
  leaves the configured duration as it was, so \<^verbatim>\<open>get_cache_status\<close> afterwards still
  reports that duration.
\<close>

theorem clear_location_cache_keeps_duration:
  "fst (clear_location_cache w) = ''cache_cleared'' \<and>
   data (location_cache (snd (clear_location_cache w))) = None \<and>
   timestamp_c (location_cache (snd (clear_location_cache w))) = 0 \<and>
   cache_duration (location_cache (snd (clear_location_cache w))) = cache_duration (location_cache w) \<and>
   cache_duration_s (get_cache_status (snd (clear_location_cache w))) = cache_duration (location_cache w)"
  by (simp add: clear_location_cache_def get_cache_status_def Let_def)

theorem clear_location_cache_keeps_duration_witness:
  "cache_duration (location_cache (snd (clear_location_cache (snd (set_cache_duration 120 quiet_world))))) = 120 \<and>
   cache_duration_s (get_cache_status (snd (clear_location_cache (snd (set_cache_duration 120 quiet_world))))) = 120 \<and>
   data (location_cache (snd (clear_location_cache (snd (set_cache_duration 120 quiet_world))))) = None"
  using clear_location_cache_keeps_duration [of "snd (set_cache_duration 120 quiet_world)"]
  by (simp add: set_cache_duration_def Let_def)

end
